theory Spec2Isabelle
  imports Main "HOL-Library.Word" "HOL-Library.Signed_Division"
begin

section \<open>Machine integers\<close>

text \<open>
  The sensor task is written with the fixed-width integer types of C++. Each is a word of
  that width; a signed type is the same word read with \<open>sint\<close>. Unsigned arithmetic wraps
  (the \<open>+\<close>, \<open>*\<close> and \<open>div\<close> of words). Signed arithmetic is carried out on \<open>int\<close> with the
  wrap-around written out: a 32-bit signed product keeps its low 32 bits, read as two's
  complement (\<open>signed_take_bit 31\<close>), which is what the compiled multiplication leaves. A
  conversion to a narrower signed type keeps the low bits (\<open>word_of_int\<close>, \<open>ucast\<close>).
  Division by zero yields no value and is the \<open>fault\<close> of the model.
\<close>

type_synonym uint8_t = "8 word"
type_synonym uint16_t = "16 word"
type_synonym uint32_t = "32 word"
type_synonym int16_t = "16 word"
type_synonym int32_t = "32 word"

datatype fault = DivisionByZero

section \<open>The platform\<close>

text \<open>
  Modelled from the spec: the platform collaborators \<open>readVcc\<close> and \<open>analogRead\<close> (spec
  section 6) are not part of the sources. Each call is synchronous and always succeeds. The
  platform state holds what the hardware would answer to the \<open>n\<close>-th call and the log of the
  calls made so far, so that an acquisition is visible in the state it leaves behind.
\<close>

datatype platform_call = ReadVcc | AnalogRead uint8_t

record platform =
  vccAt :: "nat \<Rightarrow> uint32_t"
  adcAt :: "nat \<Rightarrow> uint8_t \<Rightarrow> uint16_t"
  calls :: "platform_call list"

definition readVcc :: "platform \<Rightarrow> uint32_t \<times> platform" where
  "readVcc p = (vccAt p (length (calls p)), p\<lparr>calls := calls p @ [ReadVcc]\<rparr>)"

definition analogRead :: "uint8_t \<Rightarrow> platform \<Rightarrow> uint16_t \<times> platform" where
  "analogRead pin p =
     (adcAt p (length (calls p)) pin, p\<lparr>calls := calls p @ [AnalogRead pin]\<rparr>)"

section \<open>The sensor and its reading record\<close>

text \<open>
  The members of \<open>PSensor\<close> (sensor.cpp, constructor initialiser list), without their
  leading underscore; \<open>id\<close> is \<open>id_m\<close>. The header that declares them is not part of the
  sources: the configuration members have the types of the constructor's parameters, the raw
  pin values are taken as \<open>uint16_t\<close> (spec section 3: they lie in the ADC range), the time
  stamp and the supply voltage as \<open>uint32_t\<close> (the types of \<open>now\<close> and of the local \<open>Vcc\<close>).

  Modelled from the spec: the base class \<open>TimedTask\<close> is not part of the sources. Its state
  is the next due time \<open>nextRunTime\<close> (spec section 3).
\<close>

record psensor =
  nextRunTime :: uint32_t
  pinV :: uint8_t
  pinI :: uint8_t
  maxV :: uint8_t
  mV_A :: uint8_t
  r1 :: uint16_t
  r2 :: uint16_t
  readRate :: uint32_t
  id_m :: uint8_t
  calI :: int16_t
  calV :: int16_t
  Vcc :: uint32_t
  VpinVal :: uint16_t
  IpinVal :: uint16_t
  ts :: uint32_t

text \<open>
  \<open>sensor_data_struct\<close>, the record \<open>lastReading\<close> fills: the seven fields the function
  assigns (spec section 3 lists the same seven), each with the suffix \<open>_d\<close>.
\<close>

record sensor_data_struct =
  id_d :: uint8_t
  ts_d :: uint32_t
  pinValI_d :: uint16_t
  pinValV_d :: uint16_t
  mV_d :: int16_t
  mA_d :: int16_t
  mW_d :: int32_t

text \<open>
  The constructor (sensor.cpp 35-52). \<open>millis\<close> is what the platform clock returns when the
  base class is constructed with \<open>TimedTask(millis())\<close>: the task is first due then.
  \<open>_Vcc\<close> is not in the initialiser list, so its first content \<open>vcc0\<close> is whatever the
  memory held.
\<close>

definition PSensor ::
  "uint32_t \<Rightarrow> uint32_t \<Rightarrow> uint8_t \<Rightarrow> uint8_t \<Rightarrow> uint8_t \<Rightarrow> uint8_t \<Rightarrow> uint16_t \<Rightarrow> uint16_t \<Rightarrow>
   uint32_t \<Rightarrow> uint8_t \<Rightarrow> int16_t \<Rightarrow> int16_t \<Rightarrow> psensor" where
  "PSensor millis vcc0 pinV0 pinI0 maxV0 mV_A0 r10 r20 readRate0 id0 calI0 calV0 =
     \<lparr>nextRunTime = millis,
      pinV = pinV0, pinI = pinI0, maxV = maxV0, mV_A = mV_A0, r1 = r10, r2 = r20,
      readRate = readRate0, id_m = id0, calI = calI0, calV = calV0,
      Vcc = vcc0, VpinVal = 0, IpinVal = 0, ts = 0\<rparr>"

section \<open>Scheduling\<close>

text \<open>
  Modelled from the spec: \<open>TimedTask::incRunTime\<close> is not part of the sources. The run step
  hands it the interval alone (\<^verbatim>\<open>incRunTime(_readRate)\<close>, sensor.cpp 76); \<open>now\<close> goes to the
  time stamp only. The task reschedules itself relative to its own last due time, not to
  the clock (spec section 2), so that after the run due at \<open>T0 + I\<close> the next due time is
  \<open>T0 + 2I\<close> however late the invocation was (spec section 8): the interval is added to the
  due time. The clock is a wrapping 32-bit counter, so the sum wraps.
\<close>

definition incRunTime :: "uint32_t \<Rightarrow> psensor \<Rightarrow> psensor" where
  "incRunTime inc s = s\<lparr>nextRunTime := nextRunTime s + inc\<rparr>"

text \<open>\<open>PSensor::run\<close> (sensor.cpp 60-77), statement by statement.\<close>

definition run :: "uint32_t \<Rightarrow> psensor \<Rightarrow> platform \<Rightarrow> psensor \<times> platform" where
  "run now s p =
     (let s1 = s\<lparr>ts := now\<rparr>;
          (v, p1) = readVcc p;
          s2 = s1\<lparr>Vcc := v\<rparr>;
          (rv, p2) = analogRead (pinV s2) p1;
          s3 = s2\<lparr>VpinVal := rv\<rparr>;
          (ri, p3) = analogRead (pinI s3) p2;
          s4 = s3\<lparr>IpinVal := ri\<rparr>
      in (incRunTime (readRate s4) s4, p3))"

section \<open>Conversions\<close>

text \<open>
  \<open>PSensor::current\<close> (sensor.cpp 83-125):
  \<^verbatim>\<open>(int16_t)((((int32_t)_IpinVal - 512 + _calI) * 625000) / (int32_t)(128 * _mV_A))\<close>.
  The sum is a 32-bit signed value that cannot overflow (it lies between -33280 and 98302);
  its product with 625000 can, and then wraps to 32 bits. The divisor \<open>128 * _mV_A\<close> is at
  most 32640 and fits every \<open>int\<close>; it is 0 exactly when the sensitivity is 0. The quotient
  truncates towards zero (\<open>sdiv\<close>); the cast keeps its low 16 bits.
\<close>

definition zeroComp :: "psensor \<Rightarrow> int" where
  "zeroComp s = uint (IpinVal s) - 512 + sint (calI s)"

definition current :: "psensor \<Rightarrow> fault + int16_t" where
  "current s =
     (let num = signed_take_bit 31 (zeroComp s * 625000);
          den = 128 * uint (mV_A s)
      in if den = 0 then Inl DivisionByZero
         else Inr (word_of_int (num sdiv den)))"

text \<open>
  \<open>PSensor::voltage\<close> (sensor.cpp 130-146): a fresh supply-voltage reading goes into the
  local \<open>Vcc\<close>, which is not used; the result is
  \<^verbatim>\<open>((uint32_t)_VpinVal * _maxV*125)/128\<close>, computed in unsigned 32-bit arithmetic and
  converted to the 16-bit signed return type.
\<close>

definition voltage :: "psensor \<Rightarrow> platform \<Rightarrow> int16_t \<times> platform" where
  "voltage s p =
     (let (Vcc_local, p1) = readVcc p
      in (ucast (((ucast (VpinVal s) :: uint32_t) * ucast (maxV s) * 125) div 128), p1))"

text \<open>
  Modelled from the spec: \<open>power\<close> is declared in the header, which is not part of the
  sources. Spec section 4.2: \<open>power_mW = mV * mA / 1000\<close>, with a wide intermediate. The
  product of two 16-bit values fits 32 bits.
\<close>

definition power_mW :: "int16_t \<Rightarrow> int16_t \<Rightarrow> int32_t" where
  "power_mW mV mA = word_of_int ((sint mV * sint mA) sdiv 1000)"

section \<open>Reading the sensor\<close>

text \<open>
  \<open>PSensor::lastReading\<close> (sensor.cpp 160-180). The test of \<open>_ts\<close> and the reset of \<open>_ts\<close>
  are commented out in the source, so neither is part of the function: it fills the record
  and returns 0. The function is a non-const member, so the model returns the sensor too.
\<close>

definition lastReading ::
  "psensor \<Rightarrow> platform \<Rightarrow> sensor_data_struct \<Rightarrow>
   fault + (uint8_t \<times> sensor_data_struct \<times> psensor \<times> platform)" where
  "lastReading s p data =
     (let d1 = data\<lparr>id_d := id_m s\<rparr>;
          d2 = d1\<lparr>ts_d := ts s\<rparr>;
          d3 = d2\<lparr>pinValI_d := IpinVal s\<rparr>;
          d4 = d3\<lparr>pinValV_d := VpinVal s\<rparr>;
          (mv, p1) = voltage s p;
          d5 = d4\<lparr>mV_d := mv\<rparr>
      in case current s of
           Inl f \<Rightarrow> Inl f
         | Inr ma \<Rightarrow>
             (let d6 = d5\<lparr>mA_d := ma\<rparr>;
                  d7 = d6\<lparr>mW_d := power_mW (mV_d d6) (mA_d d6)\<rparr>
              in Inr (0, d7, s, p1)))"

section \<open>The conversion formulas as the specification writes them\<close>

text \<open>
  Spec section 4.2, over unbounded integers: \<open>current_mA = zero * 625000 / (128 *
  sensitivity)\<close> with \<open>zero = raw - 512 + offset\<close>, and \<open>voltage_mV = raw * maxVoltage *
  125 / 128\<close>. The current can be negative, and its division truncates as the program's
  does; the voltage is never negative.
\<close>

definition spec_current_mA :: "int \<Rightarrow> int \<Rightarrow> int \<Rightarrow> int" where
  "spec_current_mA r c sens = ((r - 512 + c) * 625000) sdiv (128 * sens)"

definition spec_voltage_mV :: "int \<Rightarrow> int \<Rightarrow> int" where
  "spec_voltage_mV r maxv = (r * maxv * 125) div 128"

text \<open>The two formulas at the values a sensor has stored.\<close>

definition exact_mA :: "psensor \<Rightarrow> int" where
  "exact_mA s = spec_current_mA (uint (IpinVal s)) (sint (calI s)) (uint (mV_A s))"

definition exact_mV :: "psensor \<Rightarrow> int" where
  "exact_mV s = spec_voltage_mV (uint (VpinVal s)) (uint (maxV s))"

section \<open>A bench configuration\<close>

text \<open>
  A sensor as a sketch would construct it at clock value 0: voltage divider on pin 0,
  current sensor on pin 1, 48 V full scale, 100 mV/A, sampled once a second, no
  calibration. The platform answers 5000 mV for the supply, 600 on pin 0 and 522 on any
  other pin, and has not been called yet.
\<close>

definition bench_sensor :: psensor where
  "bench_sensor = PSensor 0 0 0 1 48 100 10000 4700 1000 65 0 0"

definition bench_platform :: platform where
  "bench_platform =
     \<lparr>vccAt = (\<lambda>n. 5000), adcAt = (\<lambda>n pin. if pin = 0 then 600 else 522), calls = []\<rparr>"

definition blank_data :: sensor_data_struct where
  "blank_data =
     \<lparr>id_d = 0, ts_d = 0, pinValI_d = 0, pinValV_d = 0, mV_d = 0, mA_d = 0, mW_d = 0\<rparr>"

section \<open>Truncating division\<close>

text \<open>
  \<open>sdiv\<close> on \<open>int\<close> rounds towards zero, as the division of C++ does. For a positive
  divisor it is monotone in the dividend, and the dividend lies within one divisor of the
  quotient times the divisor.
\<close>

lemma sdiv_nonneg: "0 \<le> (a::int) \<Longrightarrow> 0 < d \<Longrightarrow> a sdiv d = a div d"
  by (simp add: signed_divide_int_def sgn_if)

lemma sdiv_neg: "(a::int) < 0 \<Longrightarrow> 0 < d \<Longrightarrow> a sdiv d = - ((- a) div d)"
  by (simp add: signed_divide_int_def sgn_if)

lemma sdiv_mono_num:
  assumes "(a::int) \<le> b" and "0 < d"
  shows "a sdiv d \<le> b sdiv d"
proof (cases "0 \<le> a")
  case True
  with assms show ?thesis by (simp add: sdiv_nonneg zdiv_mono1)
next
  case False
  then have a: "a < 0" by simp
  show ?thesis
  proof (cases "0 \<le> b")
    case True
    have "a sdiv d \<le> 0" using a assms(2) by (simp add: sdiv_neg pos_imp_zdiv_nonneg_iff)
    moreover have "0 \<le> b sdiv d" using True assms(2) by (simp add: sdiv_nonneg pos_imp_zdiv_nonneg_iff)
    ultimately show ?thesis by simp
  next
    case False
    then have b: "b < 0" by simp
    have "(- b) div d \<le> (- a) div d" using assms by (intro zdiv_mono1) simp_all
    then show ?thesis using a b assms(2) by (simp add: sdiv_neg)
  qed
qed

lemma sdiv_num_bounds:
  assumes "0 < (d::int)"
  shows "(a sdiv d - 1) * d < a \<and> a < (a sdiv d + 1) * d"
proof (cases "0 \<le> a")
  case True
  have "a = d * (a div d) + a mod d" by simp
  moreover have "0 \<le> a mod d" "a mod d < d" using assms by simp_all
  ultimately have "d * (a div d) \<le> a \<and> a < d * (a div d) + d" by linarith
  then show ?thesis using True assms by (simp add: sdiv_nonneg algebra_simps)
next
  case False
  then have a: "a < 0" by simp
  define n where "n = - a"
  have "n = d * (n div d) + n mod d" by simp
  moreover have "0 \<le> n mod d" "n mod d < d" using assms by simp_all
  ultimately have "d * (n div d) \<le> n \<and> n < d * (n div d) + d" by linarith
  then show ?thesis using a assms by (simp add: sdiv_neg n_def algebra_simps)
qed

section \<open>Narrowing to 16 bits\<close>

lemma sint_int16_of_int:
  "- 32768 \<le> k \<Longrightarrow> k < 32768 \<Longrightarrow> sint (word_of_int k :: 16 word) = k"
  by (simp add: sint_sbintrunc' signed_take_bit_int_eq_self)

lemma uint_voltage_quotient:
  fixes r :: "16 word" and m :: "8 word"
  shows "uint (((ucast r :: 32 word) * ucast m * 125) div 128) = (uint r * uint m * 125) div 128"
proof -
  have r: "uint r < 65536" using uint_lt2p [of r] by simp
  have m: "uint m < 256" using uint_lt2p [of m] by simp
  have ur: "uint (ucast r :: 32 word) = uint r" by (simp add: uint_up_ucast is_up)
  have um: "uint (ucast m :: 32 word) = uint m" by (simp add: uint_up_ucast is_up)
  have "uint r * uint m \<le> 65535 * 255"
    using r m by (intro mult_mono) simp_all
  then have b1: "uint r * uint m < 2 ^ 32" by simp
  have p1: "uint ((ucast r :: 32 word) * ucast m) = uint r * uint m"
    using b1 uint_mult_lem [of "ucast r :: 32 word" "ucast m"] by (simp add: ur um)
  have "uint r * uint m * 125 \<le> 65535 * 255 * 125"
    using \<open>uint r * uint m \<le> 65535 * 255\<close> by simp
  then have b2: "uint r * uint m * 125 < 2 ^ 32" by simp
  have p2: "uint ((ucast r :: 32 word) * ucast m * 125) = uint r * uint m * 125"
    using b2 uint_mult_lem [of "(ucast r :: 32 word) * ucast m" 125] by (simp add: p1)
  show ?thesis by (simp add: uint_div p2)
qed

lemma sint_ucast_32_16: "sint (ucast (w :: 32 word) :: 16 word) = signed_take_bit 15 (uint w)"
proof -
  have "(ucast w :: 16 word) = word_of_int (uint w)" by (rule ucast_eq)
  then show ?thesis by (simp only: sint_sbintrunc') simp
qed

section \<open>What the voltage conversion returns\<close>

text \<open>
  The 32-bit product cannot wrap: it is at most \<open>65535 * 255 * 125\<close>. So the value returned
  is the quotient of the specification, narrowed to 16 signed bits.
\<close>

lemma sint_voltage: "sint (fst (voltage s p)) = signed_take_bit 15 (exact_mV s)"
  by (simp add: voltage_def readVcc_def exact_mV_def spec_voltage_mV_def
      sint_ucast_32_16 uint_voltage_quotient)

lemma exact_mV_nonneg: "0 \<le> exact_mV s"
  by (simp add: exact_mV_def spec_voltage_mV_def pos_imp_zdiv_nonneg_iff)

lemma voltage_platform_free: "fst (voltage s p) = fst (voltage s q)"
  by (simp add: voltage_def readVcc_def)

lemma voltage_ignores_Vcc: "voltage (s\<lparr>Vcc := v\<rparr>) p = voltage s p"
  by (simp add: voltage_def)

section \<open>When the current conversion is exact\<close>

text \<open>
  The divisor is between 128 and 32640 unless the sensitivity is 0, and \<open>current\<close> returns a
  value exactly then. A quotient within the 16-bit signed range keeps the 32-bit product
  from wrapping.
\<close>

lemma den_bounds: "mV_A s \<noteq> 0 \<Longrightarrow> 128 \<le> 128 * uint (mV_A s) \<and> 128 * uint (mV_A s) \<le> 32640"
proof -
  assume "mV_A s \<noteq> 0"
  then have "uint (mV_A s) \<noteq> 0" by (simp add: uint_0_iff)
  moreover have "0 \<le> uint (mV_A s)" by simp
  moreover have "uint (mV_A s) < 256" using uint_lt2p [of "mV_A s"] by simp
  ultimately show ?thesis by linarith
qed

lemma exact_mA_sdiv: "exact_mA s = (zeroComp s * 625000) sdiv (128 * uint (mV_A s))"
  by (simp add: exact_mA_def spec_current_mA_def zeroComp_def)

lemma num_in_range:
  assumes nz: "mV_A s \<noteq> 0" and lo: "- 32768 \<le> exact_mA s" and hi: "exact_mA s \<le> 32767"
  shows "- (2 ^ 31) \<le> zeroComp s * 625000 \<and> zeroComp s * 625000 < 2 ^ 31"
proof -
  define d where "d = 128 * uint (mV_A s)"
  define a where "a = zeroComp s * 625000"
  define q where "q = a sdiv d"
  have d: "128 \<le> d" "d \<le> 32640" using den_bounds [OF nz] by (simp_all add: d_def)
  then have dpos: "0 < d" by simp
  have q: "- 32768 \<le> q" "q \<le> 32767" using lo hi by (simp_all add: q_def a_def d_def exact_mA_sdiv)
  have b: "(q - 1) * d < a" "a < (q + 1) * d"
    using sdiv_num_bounds [OF dpos, of a] by (simp_all add: q_def)
  have "(q + 1) * d \<le> 32768 * 32640"
    using q d by (intro mult_mono) simp_all
  then have up: "a < 2 ^ 31" using b(2) by simp
  have "(1 - q) * d \<le> 32769 * 32640"
    using q d by (intro mult_mono) simp_all
  then have "- (32769 * 32640) \<le> (q - 1) * d" by (simp add: algebra_simps)
  then have "- (2 ^ 31) \<le> a" using b(1) by simp
  with up show ?thesis by (simp add: a_def)
qed

lemma current_in_range:
  assumes nz: "mV_A s \<noteq> 0" and lo: "- 32768 \<le> exact_mA s" and hi: "exact_mA s \<le> 32767"
  shows "current s = Inr (word_of_int (exact_mA s))"
proof -
  have "128 * uint (mV_A s) \<noteq> 0" using den_bounds [OF nz] by simp
  moreover have "signed_take_bit 31 (zeroComp s * 625000) = zeroComp s * 625000"
    using num_in_range [OF nz lo hi] by (intro signed_take_bit_int_eq_self) simp_all
  ultimately show ?thesis
    by (simp add: current_def Let_def exact_mA_sdiv)
qed

lemma current_returns_iff: "(\<exists>i. current s = Inr i) \<longleftrightarrow> mV_A s \<noteq> 0"
proof -
  have "128 * uint (mV_A s) = 0 \<longleftrightarrow> mV_A s = 0" by (simp add: uint_0_iff)
  then show ?thesis by (auto simp: current_def Let_def)
qed

lemma current_of_sum:
  assumes "mV_A s1 = mV_A s2"
    and "uint (IpinVal s1) + sint (calI s1) = uint (IpinVal s2) + sint (calI s2)"
  shows "current s1 = current s2"
proof -
  have "zeroComp s1 = zeroComp s2" using assms(2) by (simp add: zeroComp_def)
  then show ?thesis by (simp add: current_def assms(1))
qed

section \<open>The run step and the read accessor, unfolded\<close>

lemma run_result:
  "run now s p =
     (s\<lparr>ts := now, Vcc := vccAt p (length (calls p)),
        VpinVal := adcAt p (Suc (length (calls p))) (pinV s),
        IpinVal := adcAt p (Suc (Suc (length (calls p)))) (pinI s),
        nextRunTime := nextRunTime s + readRate s\<rparr>,
      p\<lparr>calls := calls p @ [ReadVcc, AnalogRead (pinV s), AnalogRead (pinI s)]\<rparr>)"
  by (simp add: run_def incRunTime_def readVcc_def analogRead_def Let_def)

lemma lastReading_Inr:
  assumes "current s = Inr ma"
  shows "lastReading s p d =
     Inr (0,
          \<lparr>id_d = id_m s, ts_d = ts s, pinValI_d = IpinVal s, pinValV_d = VpinVal s,
           mV_d = fst (voltage s p), mA_d = ma, mW_d = power_mW (fst (voltage s p)) ma\<rparr>,
          s, p\<lparr>calls := calls p @ [ReadVcc]\<rparr>)"
  using assms by (simp add: lastReading_def voltage_def readVcc_def Let_def)

lemma lastReading_Inl:
  "current s = Inl f \<Longrightarrow> lastReading s p d = Inl f"
  by (simp add: lastReading_def voltage_def readVcc_def Let_def)

lemmas bench_defs = bench_sensor_def bench_platform_def blank_data_def PSensor_def

text \<open>
  Where the product wraps: with the offset 2925 and the raw sample 1023 at 100 mV/A the
  product 3436 * 625000 exceeds 32 signed bits, and \<open>current\<close> returns 28838.
\<close>

lemma current_wrapped_product:
  "map_sum id sint (current (bench_sensor\<lparr>calI := 2925, IpinVal := 1023\<rparr>)) = Inr 28838"
  by (simp add: bench_defs current_def zeroComp_def Let_def signed_divide_int_def)

section \<open>Reading before the first sample\<close>

text \<open>
  C1. On a sensor on which \<open>run\<close> has never been invoked the time stamp is still 0, and
  \<open>lastReading\<close> is to report the status 1 (no data). The function returns 0 there: the bench
  sensor, as constructed, has time stamp 0, and reading it yields the status 0.
\<close>

theorem lastReading_before_run_reports_success:
  "ts bench_sensor = 0
   \<and> map_sum id fst (lastReading bench_sensor bench_platform blank_data) = Inr 0"
  by (simp add: bench_defs lastReading_def voltage_def readVcc_def current_def zeroComp_def
      Let_def)

section \<open>The current conversion\<close>

text \<open>
  C2, as amended. For a raw current sample in the ADC range, a calibration offset and a
  non-zero sensitivity such that the quotient \<open>(r - 512 + c) * 625000 / (128 * sensitivity)\<close>,
  truncated towards zero, lies within the 16-bit signed range, \<open>current\<close> returns exactly that
  quotient.
\<close>

theorem current_exact_when_representable:
  assumes "uint (IpinVal s) \<le> 1023" and "mV_A s \<noteq> 0"
    and "- 32768 \<le> exact_mA s" and "exact_mA s \<le> 32767"
  shows "map_sum id sint (current s) = Inr (exact_mA s)"
  using assms by (simp add: current_in_range sint_int16_of_int)

text \<open>
  The two examples of the specification: at 100 mV/A and no calibration, the raw sample 522
  gives 488 mA and the raw sample 512 gives 0 mA.
\<close>

theorem current_exact_when_representable_witness:
  "map_sum id sint (current (bench_sensor\<lparr>IpinVal := 522\<rparr>)) = Inr 488
   \<and> map_sum id sint (current (bench_sensor\<lparr>IpinVal := 512\<rparr>)) = Inr 0"
proof -
  have a: "exact_mA (bench_sensor\<lparr>IpinVal := 522\<rparr>) = 488"
    by (simp add: bench_defs exact_mA_def spec_current_mA_def signed_divide_int_def)
  have b: "exact_mA (bench_sensor\<lparr>IpinVal := 512\<rparr>) = 0"
    by (simp add: bench_defs exact_mA_def spec_current_mA_def)
  have "map_sum id sint (current (bench_sensor\<lparr>IpinVal := 522\<rparr>))
        = Inr (exact_mA (bench_sensor\<lparr>IpinVal := 522\<rparr>))"
    by (rule current_exact_when_representable) (simp_all add: a, simp_all add: bench_defs)
  moreover have "map_sum id sint (current (bench_sensor\<lparr>IpinVal := 512\<rparr>))
        = Inr (exact_mA (bench_sensor\<lparr>IpinVal := 512\<rparr>))"
    by (rule current_exact_when_representable) (simp_all add: b, simp_all add: bench_defs)
  ultimately show ?thesis by (simp add: a b)
qed

text \<open>
  Without the bound the quotient is cut to 16 bits: at 1 mV/A and the raw sample 1023 the
  formula gives 2495117, and \<open>current\<close> returns 4749.
\<close>

theorem current_exact_counterexample:
  "map_sum id sint (current (bench_sensor\<lparr>IpinVal := 1023, mV_A := 1\<rparr>)) = Inr 4749
   \<and> spec_current_mA 1023 0 1 = 2495117"
  by (simp add: bench_defs current_def zeroComp_def Let_def spec_current_mA_def
      signed_divide_int_def)

text \<open>
  C8, as amended. For every fixed sensitivity and raw samples in the ADC range, \<open>current\<close> is
  a function of the sum \<open>r + c\<close>: equal sums give equal results, whatever their size. For a
  non-zero sensitivity and \<open>r1 + c1 \<le> r2 + c2\<close>, with the quotients of the formula within
  the 16-bit signed range, \<open>current\<close> returns a value for both and the first is at most the
  second.
\<close>

theorem current_monotone_when_representable:
  assumes "uint (IpinVal s1) \<le> 1023" and "uint (IpinVal s2) \<le> 1023"
    and "mV_A s1 = mV_A s2"
  shows "(uint (IpinVal s1) + sint (calI s1) = uint (IpinVal s2) + sint (calI s2)
            \<longrightarrow> current s1 = current s2)
       \<and> (mV_A s1 \<noteq> 0
            \<and> uint (IpinVal s1) + sint (calI s1) \<le> uint (IpinVal s2) + sint (calI s2)
            \<and> - 32768 \<le> exact_mA s1 \<and> exact_mA s2 \<le> 32767
            \<longrightarrow> (\<exists>i1 i2. current s1 = Inr i1 \<and> current s2 = Inr i2 \<and> sint i1 \<le> sint i2))"
proof -
  have mono: "\<exists>i1 i2. current s1 = Inr i1 \<and> current s2 = Inr i2 \<and> sint i1 \<le> sint i2"
    if nz: "mV_A s1 \<noteq> 0"
      and sum: "uint (IpinVal s1) + sint (calI s1) \<le> uint (IpinVal s2) + sint (calI s2)"
      and lo: "- 32768 \<le> exact_mA s1" and hi: "exact_mA s2 \<le> 32767"
  proof -
    have nz2: "mV_A s2 \<noteq> 0" using assms(3) nz by simp
    have dpos: "0 < 128 * uint (mV_A s2)" using den_bounds [OF nz2] by simp
    have "zeroComp s1 \<le> zeroComp s2" using sum by (simp add: zeroComp_def)
    then have "zeroComp s1 * 625000 \<le> zeroComp s2 * 625000" by simp
    then have le: "exact_mA s1 \<le> exact_mA s2"
      using sdiv_mono_num [OF _ dpos] by (simp add: exact_mA_sdiv assms(3))
    have c1: "current s1 = Inr (word_of_int (exact_mA s1))"
      using nz lo hi le by (intro current_in_range) simp_all
    have c2: "current s2 = Inr (word_of_int (exact_mA s2))"
      using nz2 lo hi le by (intro current_in_range) simp_all
    have v1: "sint (word_of_int (exact_mA s1) :: int16_t) = exact_mA s1"
      using lo hi le by (intro sint_int16_of_int) simp_all
    have v2: "sint (word_of_int (exact_mA s2) :: int16_t) = exact_mA s2"
      using lo hi le by (intro sint_int16_of_int) simp_all
    show ?thesis using c1 c2 v1 v2 le by simp
  qed
  have "current s1 = current s2"
    if "uint (IpinVal s1) + sint (calI s1) = uint (IpinVal s2) + sint (calI s2)"
    using assms(3) that by (rule current_of_sum)
  with mono show ?thesis by blast
qed

text \<open>
  At 66 mV/A the raw sample 1022 with the offset 1 gives what the raw sample 1023 gives,
  -27732, although the quotient 37804 is outside the 16-bit range. At 100 mV/A the raw
  sample 500 gives no more than the raw sample 522.
\<close>

theorem current_monotone_when_representable_witness:
  "current (bench_sensor\<lparr>mV_A := 66, IpinVal := 1022, calI := 1\<rparr>)
     = current (bench_sensor\<lparr>mV_A := 66, IpinVal := 1023\<rparr>)
   \<and> map_sum id sint (current (bench_sensor\<lparr>mV_A := 66, IpinVal := 1023\<rparr>)) = Inr (- 27732)
   \<and> (\<exists>i1 i2. current (bench_sensor\<lparr>IpinVal := 500\<rparr>) = Inr i1
        \<and> current (bench_sensor\<lparr>IpinVal := 522\<rparr>) = Inr i2 \<and> sint i1 \<le> sint i2)"
proof -
  have e1: "exact_mA (bench_sensor\<lparr>IpinVal := 500\<rparr>) = - 585"
    by (simp add: bench_defs exact_mA_def spec_current_mA_def signed_divide_int_def)
  have e2: "exact_mA (bench_sensor\<lparr>IpinVal := 522\<rparr>) = 488"
    by (simp add: bench_defs exact_mA_def spec_current_mA_def signed_divide_int_def)
  have a: "current (bench_sensor\<lparr>mV_A := 66, IpinVal := 1022, calI := 1\<rparr>)
     = current (bench_sensor\<lparr>mV_A := 66, IpinVal := 1023\<rparr>)"
    using current_monotone_when_representable
      [where ?s1.0 = "bench_sensor\<lparr>mV_A := 66, IpinVal := 1022, calI := 1\<rparr>"
         and ?s2.0 = "bench_sensor\<lparr>mV_A := 66, IpinVal := 1023\<rparr>"]
    by (simp add: bench_defs)
  have b: "map_sum id sint (current (bench_sensor\<lparr>mV_A := 66, IpinVal := 1023\<rparr>))
           = Inr (- 27732)"
    by (simp add: bench_defs current_def zeroComp_def Let_def signed_divide_int_def)
  have c: "\<exists>i1 i2. current (bench_sensor\<lparr>IpinVal := 500\<rparr>) = Inr i1
        \<and> current (bench_sensor\<lparr>IpinVal := 522\<rparr>) = Inr i2 \<and> sint i1 \<le> sint i2"
    using current_monotone_when_representable
      [where ?s1.0 = "bench_sensor\<lparr>IpinVal := 500\<rparr>"
         and ?s2.0 = "bench_sensor\<lparr>IpinVal := 522\<rparr>"]
    by (simp add: e1 e2) (simp add: bench_defs)
  from a b c show ?thesis by simp
qed

text \<open>
  Outside the 16-bit range the order is lost: at 66 mV/A and no calibration the raw sample
  512 gives 0 mA, and the larger raw sample 1023 gives -27732 mA.
\<close>

theorem current_monotone_counterexample:
  "uint (512 :: uint16_t) + sint (0 :: int16_t) \<le> uint (1023 :: uint16_t) + sint (0 :: int16_t)
   \<and> map_sum id sint (current (bench_sensor\<lparr>mV_A := 66, IpinVal := 512\<rparr>)) = Inr 0
   \<and> map_sum id sint (current (bench_sensor\<lparr>mV_A := 66, IpinVal := 1023\<rparr>)) = Inr (- 27732)"
  by (simp add: bench_defs current_def zeroComp_def Let_def signed_divide_int_def)

section \<open>The voltage conversion\<close>

text \<open>
  C3. For a raw voltage sample in the ADC range \<open>voltage\<close> is to return exactly
  \<open>r * maxV * 125 / 128\<close> millivolts. The function does not for a quotient of 32768 or more,
  which its 16-bit return type cannot hold: at 48 V full scale the raw sample 700 has the
  quotient 32812 and comes back as -32724, and the raw sample 1023 has the quotient 47953
  and comes back as -17583. At the raw sample 0 it returns 0.
\<close>

theorem voltage_loses_quotient_at_48V:
  "spec_voltage_mV 700 48 = 32812
   \<and> sint (fst (voltage (bench_sensor\<lparr>VpinVal := 700\<rparr>) bench_platform)) = - 32724
   \<and> spec_voltage_mV 1023 48 = 47953
   \<and> sint (fst (voltage (bench_sensor\<lparr>VpinVal := 1023\<rparr>) bench_platform)) = - 17583
   \<and> sint (fst (voltage (bench_sensor\<lparr>VpinVal := 0\<rparr>) bench_platform)) = 0"
  by (simp add: bench_defs voltage_def readVcc_def spec_voltage_mV_def)

text \<open>
  C10. For a raw voltage sample in the ADC range and any configured maximum voltage, the
  value \<open>voltage\<close> returns equals the quotient \<open>r * maxV * 125 / 128\<close> if and only if the
  quotient is below 32768; in every case it is the quotient reduced modulo \<open>2 ^ 16\<close> and
  read as a signed 16-bit value.
\<close>

theorem voltage_narrowed_to_int16:
  assumes "uint (VpinVal s) \<le> 1023"
  shows "(sint (fst (voltage s p)) = exact_mV s \<longleftrightarrow> exact_mV s < 32768)
       \<and> sint (fst (voltage s p)) = (exact_mV s + 32768) mod 65536 - 32768"
proof -
  have "signed_take_bit 15 (exact_mV s) = exact_mV s \<longleftrightarrow> exact_mV s < 32768"
    using exact_mV_nonneg [of s] by (simp add: signed_take_bit_int_eq_self_iff)
  moreover have "signed_take_bit 15 (exact_mV s) = (exact_mV s + 32768) mod 65536 - 32768"
    by (simp add: signed_take_bit_eq_take_bit_shift take_bit_eq_mod)
  ultimately show ?thesis by (simp add: sint_voltage)
qed

text \<open>The example of the claim: raw sample 1023 at 48 V full scale.\<close>

theorem voltage_narrowed_to_int16_witness:
  "exact_mV (bench_sensor\<lparr>VpinVal := 1023\<rparr>) = 47953
   \<and> sint (fst (voltage (bench_sensor\<lparr>VpinVal := 1023\<rparr>) bench_platform)) = - 17583"
proof -
  have a: "exact_mV (bench_sensor\<lparr>VpinVal := 1023\<rparr>) = 47953"
    by (simp add: bench_defs exact_mV_def spec_voltage_mV_def)
  have b: "uint (VpinVal (bench_sensor\<lparr>VpinVal := 1023\<rparr>)) \<le> 1023" by simp
  show ?thesis
    using voltage_narrowed_to_int16 [OF b, of bench_platform] by (simp add: a)
qed

text \<open>
  C5. Two sensors that differ only in the voltage calibration offset get the same result
  from \<open>voltage\<close>, and leave the platform in the same state.
\<close>

theorem voltage_ignores_calV: "voltage (s\<lparr>calV := c\<rparr>) p = voltage s p"
  by (simp add: voltage_def)

theorem voltage_ignores_calV_witness:
  "voltage (bench_sensor\<lparr>calV := 25\<rparr>) bench_platform
   = voltage (bench_sensor\<lparr>calV := - 3\<rparr>) bench_platform"
  using voltage_ignores_calV [where s = bench_sensor and c = 25 and p = bench_platform]
    voltage_ignores_calV [where s = bench_sensor and c = "- 3" and p = bench_platform]
  by simp

text \<open>
  C9, as amended. Every call of \<open>voltage\<close> performs one new supply-voltage acquisition, and
  nothing else on the platform; the value it returns is determined by the sensor state
  alone, whatever the platform answers.
\<close>

theorem voltage_reacquires_supply:
  "calls (snd (voltage s p)) = calls p @ [ReadVcc] \<and> fst (voltage s p) = fst (voltage s q)"
  by (simp add: voltage_def readVcc_def)

theorem voltage_reacquires_supply_witness:
  "calls (snd (voltage bench_sensor bench_platform)) = calls bench_platform @ [ReadVcc]
   \<and> fst (voltage bench_sensor bench_platform)
     = fst (voltage bench_sensor (bench_platform\<lparr>vccAt := (\<lambda>n. 3300)\<rparr>))"
  using voltage_reacquires_supply
    [of bench_sensor bench_platform "bench_platform\<lparr>vccAt := (\<lambda>n. 3300)\<rparr>"]
  by simp

text \<open>
  On the bench platform, which has not been called yet, one call of \<open>voltage\<close> leaves one
  supply-voltage acquisition in the log.
\<close>

theorem voltage_no_acquisition_counterexample:
  "calls bench_platform = [] \<and> calls (snd (voltage bench_sensor bench_platform)) = [ReadVcc]"
  by (simp add: bench_defs voltage_def readVcc_def)

section \<open>Rescheduling\<close>

text \<open>
  C4, as amended. On a task with read interval \<open>I\<close>, the reschedule performed during a run
  sets the next due time to exactly the previous due time plus \<open>I\<close> (on the wrapping 32-bit
  clock), whatever the \<open>now\<close> argument of the run is and whatever the platform answers
  during the step.
\<close>

theorem run_next_due: "nextRunTime (fst (run now s p)) = nextRunTime s + readRate s"
  by (simp add: run_def incRunTime_def readVcc_def analogRead_def Let_def)

text \<open>
  With \<open>T0 = 0\<close> and \<open>I = 1000\<close>: the run at \<open>T0\<close> leaves the task due at \<open>T0 + I\<close>, and the
  next run, entered late at \<open>T0 + I + 5\<close>, leaves it due at \<open>T0 + 2 * I\<close>.
\<close>

theorem run_next_due_witness:
  "nextRunTime (fst (run 0 bench_sensor bench_platform)) = 0 + 1000
   \<and> nextRunTime (fst (run (0 + 1000 + 5) (fst (run 0 bench_sensor bench_platform))
                          (snd (run 0 bench_sensor bench_platform)))) = 0 + 2 * 1000"
  using run_next_due [of 0 bench_sensor bench_platform]
    run_next_due [of "0 + 1000 + 5" "fst (run 0 bench_sensor bench_platform)"
      "snd (run 0 bench_sensor bench_platform)"]
  by (simp add: bench_defs run_result)

text \<open>
  That late run was entered with \<open>now = T0 + I + 5\<close>, and the due time it leaves is not
  \<open>now + I\<close>.
\<close>

theorem run_late_entry_counterexample:
  "nextRunTime (fst (run (0 + 1000 + 5) (fst (run 0 bench_sensor bench_platform))
                       (snd (run 0 bench_sensor bench_platform))))
   \<noteq> (0 + 1000 + 5) + readRate bench_sensor"
  by (simp add: bench_defs run_result)

section \<open>Reading after a sample\<close>

text \<open>
  C6, as amended. Let the platform return \<open>v\<close>, \<open>rv\<close> and \<open>ri\<close> to the three acquisitions of
  \<open>run now\<close>, on a sensor with a non-zero sensitivity. Then \<open>lastReading\<close> after that one run
  reports the status 0, the record has the time stamp \<open>now\<close> and the raw samples \<open>rv\<close> and
  \<open>ri\<close>, and the sensor holds \<open>v\<close> as its supply voltage.
\<close>

theorem lastReading_after_run:
  assumes "vccAt p (length (calls p)) = v"
    and "adcAt p (Suc (length (calls p))) (pinV s) = rv"
    and "adcAt p (Suc (Suc (length (calls p)))) (pinI s) = ri"
    and "mV_A s \<noteq> 0"
    and "run now s p = (s', p')"
  shows "\<exists>d' p''. lastReading s' p' d = Inr (0, d', s', p'')
           \<and> ts_d d' = now \<and> pinValV_d d' = rv \<and> pinValI_d d' = ri \<and> Vcc s' = v"
proof -
  have s': "s' = s\<lparr>ts := now, Vcc := v, VpinVal := rv, IpinVal := ri,
                   nextRunTime := nextRunTime s + readRate s\<rparr>"
    using assms(1,2,3,5) by (simp add: run_result)
  have "mV_A s' \<noteq> 0" using assms(4) by (simp add: s')
  then obtain ma where "current s' = Inr ma"
    using current_returns_iff [of s'] by blast
  then show ?thesis by (simp add: lastReading_Inr s')
qed

text \<open>
  The bench sensor with the calibration offset 2925, sampled at 1005 while the current
  channel reads 1023: the 32-bit product wraps, and the read still reports the status 0
  with the time stamp and both raw samples.
\<close>

theorem lastReading_after_run_witness:
  "\<exists>d' p''. lastReading
               (fst (run 1005 (bench_sensor\<lparr>calI := 2925\<rparr>) (bench_platform\<lparr>adcAt := (\<lambda>n pin. 1023)\<rparr>)))
               (snd (run 1005 (bench_sensor\<lparr>calI := 2925\<rparr>) (bench_platform\<lparr>adcAt := (\<lambda>n pin. 1023)\<rparr>)))
               blank_data
             = Inr (0, d',
                    fst (run 1005 (bench_sensor\<lparr>calI := 2925\<rparr>)
                           (bench_platform\<lparr>adcAt := (\<lambda>n pin. 1023)\<rparr>)), p'')
           \<and> ts_d d' = 1005 \<and> pinValV_d d' = 1023 \<and> pinValI_d d' = 1023
           \<and> Vcc (fst (run 1005 (bench_sensor\<lparr>calI := 2925\<rparr>)
                         (bench_platform\<lparr>adcAt := (\<lambda>n pin. 1023)\<rparr>))) = 5000"
proof -
  let ?s = "bench_sensor\<lparr>calI := 2925\<rparr>"
  let ?p = "bench_platform\<lparr>adcAt := (\<lambda>n pin. 1023)\<rparr>"
  have 1: "vccAt ?p (length (calls ?p)) = 5000" by (simp add: bench_defs)
  have 2: "adcAt ?p (Suc (length (calls ?p))) (pinV ?s) = 1023" by simp
  have 3: "adcAt ?p (Suc (Suc (length (calls ?p)))) (pinI ?s) = 1023" by simp
  have 4: "mV_A ?s \<noteq> 0" by (simp add: bench_defs)
  have 5: "run 1005 ?s ?p = (fst (run 1005 ?s ?p), snd (run 1005 ?s ?p))" by simp
  show ?thesis by (rule lastReading_after_run [OF 1 2 3 4 5])
qed

text \<open>
  On a sensor configured with the sensitivity 0, the read after one run divides by zero
  and reports no status.
\<close>

theorem lastReading_after_run_counterexample:
  "lastReading (fst (run 1005 (bench_sensor\<lparr>mV_A := 0\<rparr>) bench_platform))
     (snd (run 1005 (bench_sensor\<lparr>mV_A := 0\<rparr>) bench_platform)) blank_data
   = Inl DivisionByZero"
proof -
  have "current (fst (run 1005 (bench_sensor\<lparr>mV_A := 0\<rparr>) bench_platform))
        = Inl DivisionByZero"
    by (simp add: run_result bench_defs current_def zeroComp_def Let_def)
  then show ?thesis by (rule lastReading_Inl)
qed

text \<open>
  C7. A call of \<open>lastReading\<close> that returns leaves the sensor as it was, and the next call,
  with no run in between and into any record, returns the same status and fills the record
  with the same values; only the platform has seen one more supply-voltage acquisition. A
  call that faults because the sensitivity is 0 faults in the same way whenever it is
  repeated.
\<close>

theorem lastReading_frame_idempotent:
  "(lastReading s p d = Inr (st, d1, s1, p1) \<longrightarrow>
      s1 = s
      \<and> lastReading s1 p1 d2 = Inr (st, d1, s1, p1\<lparr>calls := calls p1 @ [ReadVcc]\<rparr>))
   \<and> (lastReading s p d = Inl f \<longrightarrow> lastReading s q d2 = Inl f)"
proof (cases "current s")
  case (Inl g)
  then show ?thesis by (simp add: lastReading_Inl)
next
  case (Inr ma)
  have "s1 = s
      \<and> lastReading s1 p1 d2 = Inr (st, d1, s1, p1\<lparr>calls := calls p1 @ [ReadVcc]\<rparr>)"
    if ret: "lastReading s p d = Inr (st, d1, s1, p1)"
  proof -
    have eq: "s1 = s" "st = 0"
      "d1 = \<lparr>id_d = id_m s, ts_d = ts s, pinValI_d = IpinVal s, pinValV_d = VpinVal s,
             mV_d = fst (voltage s p), mA_d = ma, mW_d = power_mW (fst (voltage s p)) ma\<rparr>"
      using ret unfolding lastReading_Inr [OF Inr] by auto
    have "fst (voltage s p1) = fst (voltage s p)" by (rule voltage_platform_free)
    then show ?thesis by (simp add: eq lastReading_Inr [OF Inr])
  qed
  moreover have "lastReading s p d \<noteq> Inl f" by (simp add: lastReading_Inr [OF Inr])
  ultimately show ?thesis by blast
qed

text \<open>
  The bench sensor after a sample at 1005: the first read returns the record below, and so
  does the second. With the sensitivity 0 the read faults, and faults again.
\<close>

theorem lastReading_frame_idempotent_witness:
  "lastReading (bench_sensor\<lparr>VpinVal := 600, IpinVal := 522, ts := 1005\<rparr>)
       (bench_platform\<lparr>calls := [ReadVcc]\<rparr>) blank_data
   = Inr (0, \<lparr>id_d = 65, ts_d = 1005, pinValI_d = 522, pinValV_d = 600,
              mV_d = 28125, mA_d = 488, mW_d = 13725\<rparr>,
          bench_sensor\<lparr>VpinVal := 600, IpinVal := 522, ts := 1005\<rparr>,
          bench_platform\<lparr>calls := [ReadVcc, ReadVcc]\<rparr>)
   \<and> lastReading (bench_sensor\<lparr>mV_A := 0\<rparr>) (bench_platform\<lparr>calls := [ReadVcc]\<rparr>)
       blank_data
     = Inl DivisionByZero"
proof -
  have h: "lastReading (bench_sensor\<lparr>VpinVal := 600, IpinVal := 522, ts := 1005\<rparr>)
       bench_platform blank_data
   = Inr (0, \<lparr>id_d = 65, ts_d = 1005, pinValI_d = 522, pinValV_d = 600,
              mV_d = 28125, mA_d = 488, mW_d = 13725\<rparr>,
          bench_sensor\<lparr>VpinVal := 600, IpinVal := 522, ts := 1005\<rparr>,
          bench_platform\<lparr>calls := [ReadVcc]\<rparr>)"
    by (simp add: bench_defs lastReading_def voltage_def readVcc_def current_def zeroComp_def
        power_mW_def signed_divide_int_def Let_def)
  have g: "lastReading (bench_sensor\<lparr>mV_A := 0\<rparr>) bench_platform blank_data
           = Inl DivisionByZero"
    by (simp add: bench_defs lastReading_def voltage_def readVcc_def current_def zeroComp_def
        Let_def)
  show ?thesis
    using lastReading_frame_idempotent
      [where s = "bench_sensor\<lparr>VpinVal := 600, IpinVal := 522, ts := 1005\<rparr>"
         and p = bench_platform and d = blank_data and ?d2.0 = blank_data and st = 0
         and ?d1.0 = "\<lparr>id_d = 65, ts_d = 1005, pinValI_d = 522, pinValV_d = 600,
              mV_d = 28125, mA_d = 488, mW_d = 13725\<rparr>"
         and ?s1.0 = "bench_sensor\<lparr>VpinVal := 600, IpinVal := 522, ts := 1005\<rparr>"
         and ?p1.0 = "bench_platform\<lparr>calls := [ReadVcc]\<rparr>"]
      lastReading_frame_idempotent
      [where s = "bench_sensor\<lparr>mV_A := 0\<rparr>" and p = bench_platform and d = blank_data
         and ?d2.0 = blank_data and f = DivisionByZero
         and q = "bench_platform\<lparr>calls := [ReadVcc]\<rparr>"]
      h g
    by simp
qed

end
